theory Spec2Isabelle
  imports Complex_Main
begin

section \<open>Marketing budget pipeline (Midterm/main.py, Midterm/budget_optimizer_gui.py)\<close>

text \<open>
  The two scripts define the same six functions (\<open>generate_campaign_data\<close>,
  \<open>roi_curve_A\<close>, \<open>roi_curve_B\<close>, \<open>optimize_budget\<close>, \<open>ab_test\<close>,
  \<open>forecast_revenue\<close>) with the same bodies; they are embedded once. The entry points
  differ and are embedded separately: \<open>main\<close> (console) and \<open>run_optimizer\<close> (GUI).

  All numerical work is done by NumPy and SciPy, whose code is not part of the
  repository. Their functions are parameters of the embedding (the record
  \<open>library\<close>), as is the rounding arithmetic on floats. What the repository's own
  code does with them (which arguments it passes, which fields of the results it reads,
  which errors it checks for) is what the definitions below record.
\<close>

subsection \<open>Float values\<close>

text \<open>
  A Python float is a finite value, an infinity or NaN. Comparison and negation are exact
  in IEEE 754 and are defined here; a comparison with NaN is false. Operations that round
  (\<open>+\<close>, \<open>-\<close>, \<open>*\<close>, \<open>/\<close>, \<open>np.exp\<close>, reading a decimal literal) belong to
  the library record.
\<close>

datatype pyfloat = Finite real | PosInf | NegInf | NaN

fun float_le :: "pyfloat \<Rightarrow> pyfloat \<Rightarrow> bool" where
  "float_le NaN _ = False"
| "float_le _ NaN = False"
| "float_le NegInf _ = True"
| "float_le _ PosInf = True"
| "float_le (Finite a) (Finite b) = (a \<le> b)"
| "float_le (Finite a) NegInf = False"
| "float_le PosInf (Finite b) = False"
| "float_le PosInf NegInf = False"

fun float_lt :: "pyfloat \<Rightarrow> pyfloat \<Rightarrow> bool" where
  "float_lt NaN _ = False"
| "float_lt _ NaN = False"
| "float_lt (Finite a) (Finite b) = (a < b)"
| "float_lt NegInf NegInf = False"
| "float_lt NegInf _ = True"
| "float_lt PosInf _ = False"
| "float_lt (Finite a) PosInf = True"
| "float_lt (Finite a) NegInf = False"

fun float_neg :: "pyfloat \<Rightarrow> pyfloat" where
  "float_neg (Finite a) = Finite (- a)"
| "float_neg PosInf = NegInf"
| "float_neg NegInf = PosInf"
| "float_neg NaN = NaN"

subsection \<open>Errors and library results\<close>

datatype error = ValueError | IndexError | OtherError

text \<open>The fields of SciPy's \<open>OptimizeResult\<close> (\<open>x\<close>, \<open>fun\<close>, \<open>success\<close>, \<open>status\<close>).\<close>

record optimize_result =
  res_x :: "pyfloat list"
  res_fun :: pyfloat
  success :: bool
  status :: int

text \<open>The constraint dictionary \<open>{'type': ..., 'fun': ...}\<close>.\<close>

record constraint =
  ctype :: string
  cfun :: "pyfloat list \<Rightarrow> pyfloat"

text \<open>
  The library: float arithmetic, Python's \<open>float(str)\<close> (\<open>None\<close> is its ValueError),
  NumPy's global generator with state \<open>'g\<close> (\<open>np.random.seed\<close> replaces the state by
  one computed from the seed; \<open>np.random.normal\<close> draws from the state and advances
  it), and SciPy's \<open>minimize\<close>, \<open>ttest_ind\<close> and \<open>quad\<close>. Each library call may
  raise (\<open>Inl\<close>).
\<close>

record 'g library =
  fl_add :: "pyfloat \<Rightarrow> pyfloat \<Rightarrow> pyfloat"
  fl_sub :: "pyfloat \<Rightarrow> pyfloat \<Rightarrow> pyfloat"
  fl_mul :: "pyfloat \<Rightarrow> pyfloat \<Rightarrow> pyfloat"
  fl_div :: "pyfloat \<Rightarrow> pyfloat \<Rightarrow> pyfloat"
  dec :: "real \<Rightarrow> pyfloat"
  np_exp :: "pyfloat \<Rightarrow> pyfloat"
  float_of_str :: "string \<Rightarrow> pyfloat option"
  np_random_seed :: "int \<Rightarrow> error + 'g"
  np_random_normal :: "pyfloat \<Rightarrow> pyfloat \<Rightarrow> int \<Rightarrow> 'g \<Rightarrow> error + (pyfloat list \<times> 'g)"
  minimize :: "(pyfloat list \<Rightarrow> error + pyfloat) \<Rightarrow> pyfloat list \<Rightarrow>
                (pyfloat \<times> pyfloat) list \<Rightarrow> constraint \<Rightarrow> error + optimize_result"
  ttest_ind :: "pyfloat list \<Rightarrow> pyfloat list \<Rightarrow> error + (pyfloat \<times> pyfloat)"
  quad :: "(pyfloat \<Rightarrow> pyfloat) \<Rightarrow> pyfloat \<Rightarrow> pyfloat \<Rightarrow> error + (pyfloat \<times> pyfloat)"

subsection \<open>Step 1: simulated campaign data\<close>

text \<open>
  \<^verbatim>\<open>
  def generate_campaign_data(n=100, seed=42):
      np.random.seed(seed)
      campaign_A = np.random.normal(loc=0.15, scale=0.02, size=n)
      campaign_B = np.random.normal(loc=0.10, scale=0.02, size=n)
      return campaign_A, campaign_B
  \<close>
  The global generator state is passed in and returned. An exception leaves the state as
  it was when the failing call started.
\<close>

definition generate_campaign_data ::
  "'g library \<Rightarrow> int \<Rightarrow> int \<Rightarrow> 'g \<Rightarrow> (error + (pyfloat list \<times> pyfloat list)) \<times> 'g" where
  "generate_campaign_data L n seed g =
     (case np_random_seed L seed of
        Inl e \<Rightarrow> (Inl e, g)
      | Inr g0 \<Rightarrow>
          (case np_random_normal L (dec L 0.15) (dec L 0.02) n g0 of
             Inl e \<Rightarrow> (Inl e, g0)
           | Inr (campaign_A, g1) \<Rightarrow>
               (case np_random_normal L (dec L 0.10) (dec L 0.02) n g1 of
                  Inl e \<Rightarrow> (Inl e, g1)
                | Inr (campaign_B, g2) \<Rightarrow> (Inr (campaign_A, campaign_B), g2))))"

subsection \<open>Step 2: ROI curves\<close>

text \<open>
  \<^verbatim>\<open>
  def roi_curve_A(budget):
      return 2000 * (1 - np.exp(-0.0003 * budget))
  def roi_curve_B(budget):
      return 1500 * (1 - np.exp(-0.0004 * budget))
  \<close>
\<close>

definition roi_curve_A :: "'g library \<Rightarrow> pyfloat \<Rightarrow> pyfloat" where
  "roi_curve_A L budget =
     fl_mul L (Finite 2000)
       (fl_sub L (Finite 1) (np_exp L (fl_mul L (float_neg (dec L 0.0003)) budget)))"

definition roi_curve_B :: "'g library \<Rightarrow> pyfloat \<Rightarrow> pyfloat" where
  "roi_curve_B L budget =
     fl_mul L (Finite 1500)
       (fl_sub L (Finite 1) (np_exp L (fl_mul L (float_neg (dec L 0.0004)) budget)))"

subsection \<open>Step 3: optimisation\<close>

text \<open>
  \<^verbatim>\<open>
  def optimize_budget(total_budget):
      def neg_total_roi(x):
          return -(roi_curve_A(x[0]) + roi_curve_B(x[1]))
      constraints = {'type': 'eq', 'fun': lambda x: total_budget - sum(x)}
      bounds = [(0, total_budget), (0, total_budget)]
      initial_guess = [total_budget / 2, total_budget / 2]
      result = minimize(neg_total_roi, initial_guess, bounds=bounds, constraints=constraints)
      return result.x, -result.fun
  \<close>
  \<open>x[0]\<close> and \<open>x[1]\<close> raise IndexError on a shorter sequence. The function reads
  the fields \<open>x\<close> and \<open>fun\<close> of the result and no other.
\<close>

definition neg_total_roi :: "'g library \<Rightarrow> pyfloat list \<Rightarrow> error + pyfloat" where
  "neg_total_roi L x =
     (case x of
        x0 # x1 # _ \<Rightarrow> Inr (float_neg (fl_add L (roi_curve_A L x0) (roi_curve_B L x1)))
      | _ \<Rightarrow> Inl IndexError)"

definition py_sum :: "'g library \<Rightarrow> pyfloat list \<Rightarrow> pyfloat" where
  "py_sum L x = foldl (fl_add L) (Finite 0) x"

definition budget_constraints :: "'g library \<Rightarrow> pyfloat \<Rightarrow> constraint" where
  "budget_constraints L total_budget =
     \<lparr>ctype = ''eq'', cfun = (\<lambda>x. fl_sub L total_budget (py_sum L x))\<rparr>"

definition budget_bounds :: "pyfloat \<Rightarrow> (pyfloat \<times> pyfloat) list" where
  "budget_bounds total_budget = [(Finite 0, total_budget), (Finite 0, total_budget)]"

definition initial_guess :: "'g library \<Rightarrow> pyfloat \<Rightarrow> pyfloat list" where
  "initial_guess L total_budget =
     [fl_div L total_budget (Finite 2), fl_div L total_budget (Finite 2)]"

definition optimize_budget :: "'g library \<Rightarrow> pyfloat \<Rightarrow> error + (pyfloat list \<times> pyfloat)" where
  "optimize_budget L total_budget =
     (case minimize L (neg_total_roi L) (initial_guess L total_budget)
             (budget_bounds total_budget) (budget_constraints L total_budget) of
        Inl e \<Rightarrow> Inl e
      | Inr result \<Rightarrow> Inr (res_x result, float_neg (res_fun result)))"

subsection \<open>Step 4: A/B test\<close>

text \<open>
  \<^verbatim>\<open>
  def ab_test(data_A, data_B):
      t_stat, p_val = ttest_ind(data_A, data_B)
      return t_stat, p_val
  \<close>
\<close>

definition ab_test :: "'g library \<Rightarrow> pyfloat list \<Rightarrow> pyfloat list \<Rightarrow> error + (pyfloat \<times> pyfloat)" where
  "ab_test L data_A data_B =
     (case ttest_ind L data_A data_B of
        Inl e \<Rightarrow> Inl e
      | Inr (t_stat, p_val) \<Rightarrow> Inr (t_stat, p_val))"

subsection \<open>Step 5: revenue forecast\<close>

text \<open>
  \<^verbatim>\<open>
  def forecast_revenue(budget_A):
      monthly_budget = budget_A / 12
      revenue, _ = quad(lambda t: roi_curve_A(monthly_budget), 0, 12)
      return revenue
  \<close>
\<close>

definition forecast_revenue :: "'g library \<Rightarrow> pyfloat \<Rightarrow> error + pyfloat" where
  "forecast_revenue L budget_A =
     (let monthly_budget = fl_div L budget_A (Finite 12) in
      case quad L (\<lambda>t. roi_curve_A L monthly_budget) (Finite 0) (Finite 12) of
        Inl e \<Rightarrow> Inl e
      | Inr (revenue, _) \<Rightarrow> Inr revenue)"

subsection \<open>Entry points\<close>

text \<open>
  Output is a list of lines, each a list of fragments: literal text, a character outside
  ASCII by its code point, or a float under a format specification (\<open>{v:,.2f}\<close> is
  \<open>Fmt '',.2f'' v\<close>).
\<close>

datatype frag = Text string | Codepoint nat | Fmt string pyfloat

text \<open>
  \<^verbatim>\<open>
  def main():
      try:
          user_input = float(input("Enter your total digital marketing budget (in dollars): $"))
          if user_input <= 0:
              print("Please enter a positive number.")
              return
      except ValueError:
          print("Invalid input. Please enter a numeric value.")
          return
      campaign_A_data, campaign_B_data = generate_campaign_data()
      (budget_A, budget_B), max_roi = optimize_budget(user_input)
      t_stat, p_val = ab_test(campaign_A_data, campaign_B_data)
      forecast = forecast_revenue(budget_A)
      print(...)
  \<close>
  \<open>main L line g\<close> runs on the line read from the console and the generator state
  \<open>g\<close>; it returns the lines printed (or the exception that escapes) and the
  generator state afterwards. Unpacking \<open>(budget_A, budget_B)\<close> raises ValueError
  unless the solver's \<open>x\<close> has exactly two entries.
\<close>

definition report :: "'g library \<Rightarrow> pyfloat \<Rightarrow> pyfloat \<Rightarrow> pyfloat \<Rightarrow> pyfloat \<Rightarrow> pyfloat \<Rightarrow>
    pyfloat \<Rightarrow> pyfloat \<Rightarrow> frag list list" where
  "report L user_input budget_A budget_B max_roi t_stat p_val forecast =
     [[], [Text ''--- Budget Allocation Results ---''],
      [Text ''Total Budget: $'', Fmt '',.2f'' user_input],
      [Codepoint 0x2192, Text '' Campaign A: $'', Fmt '',.2f'' budget_A],
      [Codepoint 0x2192, Text '' Campaign B: $'', Fmt '',.2f'' budget_B],
      [Text ''Max Expected ROI: $'', Fmt '',.2f'' max_roi],
      [], [Text ''--- A/B Test Result ---''],
      [Text ''t-statistic: '', Fmt ''.3f'' t_stat],
      [Text ''p-value: '', Fmt ''.4f'' p_val],
      (if float_lt p_val (dec L 0.05)
       then [Codepoint 0x2705, Text '' Statistically significant difference '',
             Codepoint 0x2014, Text '' likely Campaign A performs better.'']
       else [Codepoint 0x2139, Codepoint 0xFE0F,
             Text '' No statistically significant difference between campaigns.'']),
      [], [Text ''--- Revenue Forecast ---''],
      [Text ''Projected 12-month Revenue (Campaign A): $'', Fmt '',.2f'' forecast]]"

definition main :: "'g library \<Rightarrow> string \<Rightarrow> 'g \<Rightarrow> (error + frag list list) \<times> 'g" where
  "main L line g =
     (case float_of_str L line of
        None \<Rightarrow> (Inr [[Text ''Invalid input. Please enter a numeric value.'']], g)
      | Some user_input \<Rightarrow>
          if float_le user_input (Finite 0)
          then (Inr [[Text ''Please enter a positive number.'']], g)
          else
            (case generate_campaign_data L 100 42 g of
               (Inl e, g') \<Rightarrow> (Inl e, g')
             | (Inr (campaign_A_data, campaign_B_data), g') \<Rightarrow>
                 (case optimize_budget L user_input of
                    Inl e \<Rightarrow> (Inl e, g')
                  | Inr (xs, max_roi) \<Rightarrow>
                      (case xs of
                         [budget_A, budget_B] \<Rightarrow>
                           (case ab_test L campaign_A_data campaign_B_data of
                              Inl e \<Rightarrow> (Inl e, g')
                            | Inr (t_stat, p_val) \<Rightarrow>
                                (case forecast_revenue L budget_A of
                                   Inl e \<Rightarrow> (Inl e, g')
                                 | Inr forecast \<Rightarrow>
                                     (Inr (report L user_input budget_A budget_B max_roi
                                             t_stat p_val forecast), g')))
                       | _ \<Rightarrow> (Inl ValueError, g')))))"

text \<open>
  \<^verbatim>\<open>
  def run_optimizer():
      try:
          budget = float(entry.get())
          if budget <= 0:
              raise ValueError
      except ValueError:
          messagebox.showerror("Input Error", "Please enter a valid positive number.")
          return
      campaign_A, campaign_B = generate_campaign_data()
      (bA, bB), max_roi = optimize_budget(budget)
      t_stat, p_val = ab_test(campaign_A, campaign_B)
      forecast = forecast_revenue(bA)
      result = f"""..."""
      output_text.delete(1.0, tk.END)
      output_text.insert(tk.END, result)
  \<close>
  The GUI handler either shows an error box (title, message) or replaces the content of
  the output widget.
\<close>

datatype gui_effect = ShowError string string | SetOutput "frag list list"

definition result_text :: "'g library \<Rightarrow> pyfloat \<Rightarrow> pyfloat \<Rightarrow> pyfloat \<Rightarrow> pyfloat \<Rightarrow> pyfloat \<Rightarrow>
    pyfloat \<Rightarrow> frag list list" where
  "result_text L budget bA bB max_roi p_val forecast =
     [[Text ''--- Optimization Results ---''], [],
      [Text ''Total Budget: $'', Fmt '',.2f'' budget], [],
      [Codepoint 0x2192, Text '' Campaign A: $'', Fmt '',.2f'' bA],
      [Codepoint 0x2192, Text '' Campaign B: $'', Fmt '',.2f'' bB],
      [Text ''Max Projected ROI: $'', Fmt '',.2f'' max_roi], [],
      [Text ''A/B Test p-value: '', Fmt ''.4f'' p_val],
      (if float_lt p_val (dec L 0.05)
       then [Codepoint 0x2713, Text '' Campaign A likely better'']
       else [Text ''No significant difference'']), [],
      [Text ''12-Month Revenue Forecast: $'', Fmt '',.2f'' forecast]]"

definition run_optimizer :: "'g library \<Rightarrow> string \<Rightarrow> 'g \<Rightarrow> (error + gui_effect) \<times> 'g" where
  "run_optimizer L entry g =
     (case float_of_str L entry of
        None \<Rightarrow> (Inr (ShowError ''Input Error'' ''Please enter a valid positive number.''), g)
      | Some budget \<Rightarrow>
          if float_le budget (Finite 0)
          then (Inr (ShowError ''Input Error'' ''Please enter a valid positive number.''), g)
          else
            (case generate_campaign_data L 100 42 g of
               (Inl e, g') \<Rightarrow> (Inl e, g')
             | (Inr (campaign_A, campaign_B), g') \<Rightarrow>
                 (case optimize_budget L budget of
                    Inl e \<Rightarrow> (Inl e, g')
                  | Inr (xs, max_roi) \<Rightarrow>
                      (case xs of
                         [bA, bB] \<Rightarrow>
                           (case ab_test L campaign_A campaign_B of
                              Inl e \<Rightarrow> (Inl e, g')
                            | Inr (t_stat, p_val) \<Rightarrow>
                                (case forecast_revenue L bA of
                                   Inl e \<Rightarrow> (Inl e, g')
                                 | Inr forecast \<Rightarrow>
                                     (Inr (SetOutput (result_text L budget bA bB max_roi
                                             p_val forecast)), g')))
                       | _ \<Rightarrow> (Inl ValueError, g')))))"

subsection \<open>Binary64 arithmetic\<close>

text \<open>
  Python's \<open>float\<close> and NumPy's \<open>float64\<close> are IEEE 754 binary64: a 53-bit
  significand, exponents from \<open>-1022\<close> to \<open>1023\<close>, results rounded to the nearest
  representable value with ties to the even significand, and a rounded magnitude of
  \<open>2^1024\<close> or more replaced by an infinity. \<open>round_binary64\<close> is that rounding of
  an exact real result; below the normal range the spacing stays \<open>2^-1074\<close>. The two
  zeros are not told apart (they compare equal).
\<close>

definition round_half_even :: "real \<Rightarrow> int" where
  "round_half_even x =
     (let f = \<lfloor>x\<rfloor>; r = x - of_int f
      in if r < 1 / 2 then f else if 1 / 2 < r then f + 1 else if even f then f else f + 1)"

definition binary64_exponent :: "real \<Rightarrow> int" where
  "binary64_exponent x = max (- 1022) \<lfloor>log 2 \<bar>x\<bar>\<rfloor>"

definition round_binary64 :: "real \<Rightarrow> pyfloat" where
  "round_binary64 x =
     (if x = 0 then Finite 0
      else
        let ulp = 2 powr of_int (binary64_exponent x - 52);
            y = of_int (round_half_even (x / ulp)) * ulp
        in if 2 ^ 1024 \<le> \<bar>y\<bar> then (if 0 < x then PosInf else NegInf) else Finite y)"

text \<open>
  The arithmetic operations are the exact operation followed by rounding, with the
  IEEE rules for infinities and NaN. Division by zero is not reached by the code (its
  divisors are the literals 2 and 12) and is left as NaN.

  \<open>ieee_exp\<close> is the correctly rounded exponential. NumPy's \<open>np.exp\<close> is accurate
  to the last place but not always the nearest value, so the two can differ in the last
  digit. \<open>ieee_exp\<close> is only evaluated at an argument below \<open>2^-55\<close>, where both
  give \<open>1.0\<close>; the theorems about all spends ask of \<open>np.exp\<close> only the two lower
  bounds of \<open>binary64_arith\<close> below.
\<close>

fun ieee_add :: "pyfloat \<Rightarrow> pyfloat \<Rightarrow> pyfloat" where
  "ieee_add (Finite a) (Finite b) = round_binary64 (a + b)"
| "ieee_add NaN _ = NaN"
| "ieee_add _ NaN = NaN"
| "ieee_add PosInf NegInf = NaN"
| "ieee_add NegInf PosInf = NaN"
| "ieee_add PosInf _ = PosInf"
| "ieee_add _ PosInf = PosInf"
| "ieee_add NegInf _ = NegInf"
| "ieee_add _ NegInf = NegInf"

definition ieee_sub :: "pyfloat \<Rightarrow> pyfloat \<Rightarrow> pyfloat" where
  "ieee_sub a b = ieee_add a (float_neg b)"

fun ieee_mul :: "pyfloat \<Rightarrow> pyfloat \<Rightarrow> pyfloat" where
  "ieee_mul (Finite a) (Finite b) = round_binary64 (a * b)"
| "ieee_mul NaN _ = NaN"
| "ieee_mul _ NaN = NaN"
| "ieee_mul (Finite a) PosInf = (if a = 0 then NaN else if 0 < a then PosInf else NegInf)"
| "ieee_mul (Finite a) NegInf = (if a = 0 then NaN else if 0 < a then NegInf else PosInf)"
| "ieee_mul PosInf (Finite b) = (if b = 0 then NaN else if 0 < b then PosInf else NegInf)"
| "ieee_mul NegInf (Finite b) = (if b = 0 then NaN else if 0 < b then NegInf else PosInf)"
| "ieee_mul PosInf PosInf = PosInf"
| "ieee_mul PosInf NegInf = NegInf"
| "ieee_mul NegInf PosInf = NegInf"
| "ieee_mul NegInf NegInf = PosInf"

fun ieee_div :: "pyfloat \<Rightarrow> pyfloat \<Rightarrow> pyfloat" where
  "ieee_div (Finite a) (Finite b) = (if b = 0 then NaN else round_binary64 (a / b))"
| "ieee_div NaN _ = NaN"
| "ieee_div _ NaN = NaN"
| "ieee_div (Finite a) _ = Finite 0"
| "ieee_div PosInf (Finite b) = (if 0 \<le> b then PosInf else NegInf)"
| "ieee_div NegInf (Finite b) = (if 0 \<le> b then NegInf else PosInf)"
| "ieee_div _ _ = NaN"

fun ieee_exp :: "pyfloat \<Rightarrow> pyfloat" where
  "ieee_exp (Finite a) = round_binary64 (exp a)"
| "ieee_exp PosInf = PosInf"
| "ieee_exp NegInf = Finite 0"
| "ieee_exp NaN = NaN"





subsection \<open>Concrete libraries for evaluation\<close>

text \<open>
  The theorems of the next section hold for every library. Evaluating the definitions at
  a concrete input needs a concrete library; the ones below are small stand-ins. Where a
  stand-in is evaluated it behaves as Python, NumPy and SciPy do there:
  \<^item> arithmetic is binary64;
  \<^item> \<open>float("abc")\<close> raises ValueError, \<open>float("-5")\<close> is \<open>-5.0\<close>,
    \<open>float("0")\<close> is \<open>0.0\<close>, \<open>float("nan")\<close> is NaN;
  \<^item> \<open>np.random.seed\<close> accepts \<open>0 \<le> seed < 2^32\<close> and raises ValueError
    otherwise; the state after seeding is the seed and the number of values drawn since;
  \<^item> \<open>np.random.normal\<close> with \<open>size=0\<close> returns an empty array, with a negative
    size it raises ValueError (the stand-in has no spread: every draw is \<open>loc\<close>);
  \<^item> \<open>ttest_ind\<close> of an empty sample returns \<open>(nan, nan)\<close>.
  The solver, the quadrature and the test on non-empty samples are absent from the base
  library \<open>demo\<close>: calling them raises.
\<close>

definition parse_table :: "string \<Rightarrow> pyfloat option" where
  "parse_table s =
     (if s = ''10000'' then Some (Finite 10000)
      else if s = ''0'' then Some (Finite 0)
      else if s = ''-5'' then Some (Finite (- 5))
      else if s = ''nan'' then Some NaN
      else None)"

definition demo_seed :: "int \<Rightarrow> error + (int \<times> nat)" where
  "demo_seed s = (if 0 \<le> s \<and> s < 2 ^ 32 then Inr (s, 0) else Inl ValueError)"

definition demo_normal ::
  "pyfloat \<Rightarrow> pyfloat \<Rightarrow> int \<Rightarrow> int \<times> nat \<Rightarrow> error + (pyfloat list \<times> (int \<times> nat))" where
  "demo_normal loc scale n g =
     (if n < 0 then Inl ValueError
      else Inr (replicate (nat n) loc, (fst g, snd g + nat n)))"

definition no_minimize :: "(pyfloat list \<Rightarrow> error + pyfloat) \<Rightarrow> pyfloat list \<Rightarrow>
    (pyfloat \<times> pyfloat) list \<Rightarrow> constraint \<Rightarrow> error + optimize_result" where
  "no_minimize f x0 bounds constraints = Inl OtherError"

definition ttest_ind_on_empty ::
  "pyfloat list \<Rightarrow> pyfloat list \<Rightarrow> error + (pyfloat \<times> pyfloat)" where
  "ttest_ind_on_empty a b = (if a = [] \<or> b = [] then Inr (NaN, NaN) else Inl OtherError)"

definition no_quad ::
  "(pyfloat \<Rightarrow> pyfloat) \<Rightarrow> pyfloat \<Rightarrow> pyfloat \<Rightarrow> error + (pyfloat \<times> pyfloat)" where
  "no_quad f a b = Inl OtherError"

definition demo :: "(int \<times> nat) library" where
  "demo = \<lparr>fl_add = ieee_add, fl_sub = ieee_sub, fl_mul = ieee_mul, fl_div = ieee_div,
            dec = round_binary64, np_exp = ieee_exp, float_of_str = parse_table,
            np_random_seed = demo_seed, np_random_normal = demo_normal,
            minimize = no_minimize, ttest_ind = ttest_ind_on_empty, quad = no_quad\<rparr>"

text \<open>
  A solver that does not converge: it reports \<open>success = False\<close> with status 9
  (SLSQP's "iteration limit reached") and the all-zero point.
\<close>

definition gives_up :: "(pyfloat list \<Rightarrow> error + pyfloat) \<Rightarrow> pyfloat list \<Rightarrow>
    (pyfloat \<times> pyfloat) list \<Rightarrow> constraint \<Rightarrow> error + optimize_result" where
  "gives_up f x0 bounds constraints =
     Inr \<lparr>res_x = [Finite 0, Finite 0], res_fun = Finite 0, success = False, status = 9\<rparr>"

definition stalled :: "(int \<times> nat) library" where
  "stalled = demo\<lparr>minimize := gives_up\<rparr>"

section \<open>Properties\<close>

subsection \<open>Auxiliary facts\<close>

lemma ab_test_passes_on: "ab_test L data_A data_B = ttest_ind L data_A data_B"
  by (simp add: ab_test_def split: sum.splits prod.splits)

lemma generate_campaign_data_outcome:
  "fst (generate_campaign_data L n seed g) = fst (generate_campaign_data L n seed g')"
  by (simp add: generate_campaign_data_def split: sum.splits prod.splits)

subsection \<open>Rounding to binary64\<close>
















lemma float_le_above: "float_le r (Finite a) \<Longrightarrow> a \<le> b \<Longrightarrow> float_le r (Finite b)"
  by (cases r) simp_all














subsection \<open>The response curves in binary64\<close>










subsection \<open>Non-convergence\<close>

text \<open>
  C3, as stated, fails: \<open>optimize_budget\<close> never reads \<open>success\<close>. With a solver that
  reports non-convergence and the all-zero point, at a budget of 10000 the function
  returns the all-zero allocation as a normal result.
\<close>

theorem nonconvergence_not_surfaced_counterexample:
  "minimize stalled (neg_total_roi stalled) (initial_guess stalled (Finite 10000))
       (budget_bounds (Finite 10000)) (budget_constraints stalled (Finite 10000))
     = Inr \<lparr>res_x = [Finite 0, Finite 0], res_fun = Finite 0, success = False, status = 9\<rparr>
   \<and> optimize_budget stalled (Finite 10000) = Inr ([Finite 0, Finite 0], Finite 0)"
  by (simp add: stalled_def demo_def gives_up_def optimize_budget_def)

text \<open>
  C3, amended. When the solver returns a result that reports non-convergence
  (\<open>success = False\<close>), \<open>optimize_budget\<close> returns normally, with that result's \<open>x\<close>
  and the negation of its \<open>fun\<close>: the failure is not surfaced. Only an exception raised
  by the solver itself makes \<open>optimize_budget\<close> fail.
\<close>

theorem optimize_budget_returns_unconverged_result:
  assumes "minimize L (neg_total_roi L) (initial_guess L total_budget)
             (budget_bounds total_budget) (budget_constraints L total_budget) = Inr result"
    and "\<not> success result"
  shows "optimize_budget L total_budget = Inr (res_x result, float_neg (res_fun result))"
  using assms by (simp add: optimize_budget_def)

theorem optimize_budget_returns_unconverged_result_witness:
  "optimize_budget stalled (Finite 10000) =
     Inr (res_x \<lparr>res_x = [Finite 0, Finite 0], res_fun = Finite 0, success = False, status = 9\<rparr>,
          float_neg (res_fun \<lparr>res_x = [Finite 0, Finite 0], res_fun = Finite 0,
                              success = False, status = 9\<rparr>))"
  by (rule optimize_budget_returns_unconverged_result [where result =
        "\<lparr>res_x = [Finite 0, Finite 0], res_fun = Finite 0, success = False, status = 9\<rparr>"])
     (simp_all add: stalled_def demo_def gives_up_def)

subsection \<open>Invalid budgets\<close>

text \<open>
  The guard on the inputs it covers. When \<open>float\<close> raises ValueError on the input or
  the value read is \<open>\<le> 0\<close>, both entry points only report the error: \<open>main\<close> prints
  its one-line message, \<open>run_optimizer\<close> shows the error box. The result does not
  depend on the library's sampler, solver, test or quadrature (it is the same when all of
  them raise), and the generator state is returned as it was: no stage of the pipeline
  has run.
\<close>

theorem invalid_budget_rejected:
  assumes "float_of_str L s = None \<or> (\<exists>u. float_of_str L s = Some u \<and> float_le u (Finite 0))"
  shows "main L s g =
           (Inr [[Text (if float_of_str L s = None
                        then ''Invalid input. Please enter a numeric value.''
                        else ''Please enter a positive number.'')]], g)
       \<and> run_optimizer L s g =
           (Inr (ShowError ''Input Error'' ''Please enter a valid positive number.''), g)"
  using assms by (auto simp add: main_def run_optimizer_def)

text \<open>
  On the inputs \<open>abc\<close>, \<open>-5\<close> and \<open>0\<close>, with the library whose solver and quadrature
  raise when called.
\<close>

theorem invalid_budget_rejected_witness:
  "main demo ''abc'' (7, 3) =
     (Inr [[Text ''Invalid input. Please enter a numeric value.'']], (7, 3))
   \<and> run_optimizer demo ''abc'' (7, 3) =
     (Inr (ShowError ''Input Error'' ''Please enter a valid positive number.''), (7, 3))
   \<and> main demo ''-5'' (7, 3) = (Inr [[Text ''Please enter a positive number.'']], (7, 3))
   \<and> run_optimizer demo ''-5'' (7, 3) =
     (Inr (ShowError ''Input Error'' ''Please enter a valid positive number.''), (7, 3))
   \<and> main demo ''0'' (7, 3) = (Inr [[Text ''Please enter a positive number.'']], (7, 3))"
  using invalid_budget_rejected [of demo "''abc''" "(7, 3)"]
    invalid_budget_rejected [of demo "''-5''" "(7, 3)"]
    invalid_budget_rejected [of demo "''0''" "(7, 3)"]
  by (simp add: demo_def parse_table_def)

text \<open>
  C5 asks that every input that is not a number be rejected before the pipeline runs. The
  guard misses one: \<open>float("nan")\<close> does not raise, and \<open>nan <= 0\<close> is false, so on
  the input \<open>nan\<close> both entry points go on to the pipeline with a NaN budget. In the
  stand-in library, whose solver raises when it is called, the outcome is not the error
  message: the sampler has re-seeded the generator and drawn its 200 values, and the
  exception of the solver escapes.
\<close>

theorem nan_budget_reaches_pipeline:
  "float_of_str demo ''nan'' = Some NaN
   \<and> \<not> float_le NaN (Finite 0)
   \<and> main demo ''nan'' (7, 3) = (Inl OtherError, (42, 200))
   \<and> run_optimizer demo ''nan'' (7, 3) = (Inl OtherError, (42, 200))"
  by (simp add: main_def run_optimizer_def generate_campaign_data_def optimize_budget_def
      demo_def parse_table_def demo_seed_def demo_normal_def no_minimize_def)

subsection \<open>Empty samples\<close>

text \<open>
  C6, as stated, fails: with a sample count of zero \<open>generate_campaign_data\<close> returns two
  empty sequences, and \<open>ab_test\<close> on them returns \<open>(nan, nan)\<close> as a normal result.
  No error is raised.
\<close>

theorem empty_sample_no_error_counterexample:
  "generate_campaign_data demo 0 42 (7, 3) = (Inr ([], []), (42, 0))
   \<and> ab_test demo [] [] = Inr (NaN, NaN)"
  by (simp add: generate_campaign_data_def ab_test_def demo_def demo_seed_def demo_normal_def
      ttest_ind_on_empty_def)

text \<open>
  C6, amended. With a sample count of zero the code checks nothing of its own: when the
  seeding and the two draws of size 0 succeed, \<open>generate_campaign_data\<close> returns the two
  sequences drawn, and \<open>ab_test\<close> on them returns what \<open>ttest_ind\<close> returns for them,
  unchanged (in SciPy, \<open>(nan, nan)\<close>).
\<close>

theorem zero_count_passes_through:
  assumes "np_random_seed L seed = Inr g0"
    and "np_random_normal L (dec L 0.15) (dec L 0.02) 0 g0 = Inr (campaign_A, g1)"
    and "np_random_normal L (dec L 0.10) (dec L 0.02) 0 g1 = Inr (campaign_B, g2)"
  shows "generate_campaign_data L 0 seed g = (Inr (campaign_A, campaign_B), g2)
       \<and> ab_test L campaign_A campaign_B = ttest_ind L campaign_A campaign_B"
  using assms by (simp add: generate_campaign_data_def ab_test_passes_on)

theorem zero_count_passes_through_witness:
  "generate_campaign_data demo 0 42 (7, 3) = (Inr ([], []), (42, 0))
   \<and> ab_test demo [] [] = ttest_ind demo [] []"
  by (rule zero_count_passes_through [where ?g0.0 = "(42, 0)" and ?g1.0 = "(42, 0)"])
     (simp_all add: demo_def demo_seed_def demo_normal_def)

subsection \<open>Determinism\<close>

text \<open>
  C7. \<open>generate_campaign_data\<close> seeds the generator before it draws, so its outcome
  (the two sequences, or the exception) is a function of the count and the seed alone:
  it is the same from any two prior states of the global generator. The outcome of
  \<open>ab_test\<close> on the sequences is then the same too.
\<close>

theorem generate_campaign_data_deterministic:
  "fst (generate_campaign_data L n seed g) = fst (generate_campaign_data L n seed g')
   \<and> (case fst (generate_campaign_data L n seed g) of
        Inl e \<Rightarrow> Inl e
      | Inr (campaign_A, campaign_B) \<Rightarrow> ab_test L campaign_A campaign_B)
     = (case fst (generate_campaign_data L n seed g') of
        Inl e \<Rightarrow> Inl e
      | Inr (campaign_A, campaign_B) \<Rightarrow> ab_test L campaign_A campaign_B)"
  by (simp add: generate_campaign_data_outcome [of L n seed g g'])

text \<open>Three draws with seed 42, from two different prior states.\<close>

theorem generate_campaign_data_deterministic_witness:
  "fst (generate_campaign_data demo 3 42 (0, 0)) = fst (generate_campaign_data demo 3 42 (7, 5))"
  using generate_campaign_data_deterministic [of demo 3 42 "(0, 0)" "(7, 5)"] by simp

subsection \<open>Negative spends\<close>




end
